theory Spec2Isabelle
  imports Main "HOL-Library.Sublist"
begin

section \<open>The HTTP layer of the publish endpoint\<close>

text \<open>
  Both applications of the repository expose a publish handler:
  \<^item> \<^verbatim>\<open>nrc/api/viewsets.py\<close>: \<^verbatim>\<open>NotificatieAPIView.post\<close>, also reached through
    \<^verbatim>\<open>NotificatieAPIView.create\<close>;
  \<^item> \<^verbatim>\<open>notifications/api/viewsets.py\<close>: \<^verbatim>\<open>NotificatieViewSet.create\<close>.

  The status constants are those of \<^verbatim>\<open>rest_framework.status\<close>.
\<close>

definition HTTP_201_CREATED :: nat where
  "HTTP_201_CREATED = 201"

definition HTTP_400_BAD_REQUEST :: nat where
  "HTTP_400_BAD_REQUEST = 400"

definition HTTP_404_NOT_FOUND :: nat where
  "HTTP_404_NOT_FOUND = 404"

text \<open>
  \<^verbatim>\<open>Response(data, status=...)\<close>. The body of a response of the publish handlers is either
  the serializer's validated data or the serializer's errors.
\<close>

datatype ('v, 'e) body = Data 'v | Errors 'e

record ('v, 'e) Response =
  data :: "('v, 'e) body"
  status :: nat

text \<open>
  A request carries the parsed body \<^verbatim>\<open>request.data\<close>; everything else the framework puts
  in it (headers, the authenticated client) is kept abstract.
\<close>

record ('d, 'm) request =
  request_data :: 'd
  request_meta :: 'm

text \<open>
  The serializer classes (\<^verbatim>\<open>MessageSerializer\<close> of either application) are not among the
  source files; the handlers use four members of an instance, which are the fields of this
  record. \<^verbatim>\<open>is_valid()\<close> may read the stored state (it resolves the channel),
  \<^verbatim>\<open>save()\<close> is the only member that changes it.
\<close>

record ('st, 'v, 'e) serializer =
  is_valid :: "'st \<Rightarrow> bool"
  validated_data :: "'st \<Rightarrow> 'v"
  errors :: "'st \<Rightarrow> 'e"
  save :: "'st \<Rightarrow> 'st"

text \<open>
  A serializer class is its constructor: \<^verbatim>\<open>Serializer(data=..., context=...)\<close>. The
  \<^verbatim>\<open>nrc\<close> handler passes \<^verbatim>\<open>context={"request": request}\<close>, the
  \<^verbatim>\<open>notifications\<close> handler passes no context.
\<close>

type_synonym ('d, 'm, 'st, 'v, 'e) serializer_class =
  "'d \<Rightarrow> ('d, 'm) request option \<Rightarrow> ('st, 'v, 'e) serializer"

text \<open>
  \<^verbatim>\<open>
  def post(self, request, *args, **kwargs):
      serializer = MessageSerializer(data=request.data, context={"request": request})
      if serializer.is_valid():
          data = serializer.validated_data
          # post to message queue
          # send to abonnement
          serializer.save()
          return Response(data, status=status.HTTP_201_CREATED)
      return Response(serializer.errors, status=status.HTTP_400_BAD_REQUEST)
  \<close>
  The handler returns the response together with the state it leaves behind.
\<close>

definition NotificatieAPIView_post ::
  "('d, 'm, 'st, 'v, 'e) serializer_class \<Rightarrow> ('d, 'm) request \<Rightarrow> 'st
     \<Rightarrow> ('v, 'e) Response \<times> 'st" where
  "NotificatieAPIView_post MessageSerializer request st =
     (let serializer = MessageSerializer (request_data request) (Some request) in
      if is_valid serializer st then
        (let data = validated_data serializer st;
             st' = save serializer st
         in (\<lparr>data = Data data, status = HTTP_201_CREATED\<rparr>, st'))
      else (\<lparr>data = Errors (errors serializer st), status = HTTP_400_BAD_REQUEST\<rparr>, st))"

text \<open>
  \<^verbatim>\<open>
  def create(self, request, *args, **kwargs):
      return self.post(request, *args, **kwargs)
  \<close>
\<close>

definition NotificatieAPIView_create ::
  "('d, 'm, 'st, 'v, 'e) serializer_class \<Rightarrow> ('d, 'm) request \<Rightarrow> 'st
     \<Rightarrow> ('v, 'e) Response \<times> 'st" where
  "NotificatieAPIView_create MessageSerializer request st =
     NotificatieAPIView_post MessageSerializer request st"

text \<open>
  \<^verbatim>\<open>
  def create(self, request, *args, **kwargs):
      serializer = self.serializer_class(data=request.data)
      if serializer.is_valid():
          data = serializer.validated_data
          # post to message queue
          # send to abonnement
          serializer.save()
          return Response(data, status=status.HTTP_201_CREATED)
      return Response(serializer.errors, status=status.HTTP_400_BAD_REQUEST)
  \<close>
\<close>

definition NotificatieViewSet_create ::
  "('d, 'm, 'st, 'v, 'e) serializer_class \<Rightarrow> ('d, 'm) request \<Rightarrow> 'st
     \<Rightarrow> ('v, 'e) Response \<times> 'st" where
  "NotificatieViewSet_create serializer_class request st =
     (let serializer = serializer_class (request_data request) None in
      if is_valid serializer st then
        (let data = validated_data serializer st;
             st' = save serializer st
         in (\<lparr>data = Data data, status = HTTP_201_CREATED\<rparr>, st'))
      else (\<lparr>data = Errors (errors serializer st), status = HTTP_400_BAD_REQUEST\<rparr>, st))"

text \<open>
  The behaviour both handlers are said to implement, in the words of the claim: when the
  serializer validates the body, save through the serializer and answer 201 with the
  validated data; otherwise answer 400 with the serializer's errors and do nothing else.
\<close>

definition publish_handler_spec ::
  "('st, 'v, 'e) serializer \<Rightarrow> 'st \<Rightarrow> ('v, 'e) Response \<times> 'st" where
  "publish_handler_spec s st =
     (if is_valid s st
      then (\<lparr>data = Data (validated_data s st), status = 201\<rparr>, save s st)
      else (\<lparr>data = Errors (errors s st), status = 400\<rparr>, st))"

section \<open>Data model\<close>

text \<open>
  The model classes (\<^verbatim>\<open>Kanaal\<close>, \<^verbatim>\<open>Abonnement\<close>) and the serializers are imported
  by the view modules but are not among the source files. Their records follow section 3
  of the specification.
\<close>

text \<open>
  Modelled from the spec: the Channel record (\<^verbatim>\<open>Kanaal\<close>, missing from the sources):
  a unique name, the ordered sequence of declared filter attribute names, an optional
  documentation URL, and the owning client. The uuid is the \<^verbatim>\<open>lookup_field\<close> of
  \<^verbatim>\<open>KanaalViewSet\<close>.
\<close>

record channel =
  ch_uuid :: string
  ch_name :: string
  ch_filters :: "string list"
  ch_documentation :: "string option"
  ch_owner :: string

text \<open>
  Modelled from the spec: a Filter Group (missing from the sources) is a mapping from
  attribute name to expected value, kept as the list of its (key, expected-value) pairs.
\<close>

type_synonym filter_group = "(string \<times> string) list"

text \<open>
  Modelled from the spec: the Subscription record (\<^verbatim>\<open>Abonnement\<close>, missing from the
  sources): identifier, the channel it is registered against, the delivery endpoint with
  its optional auth header, the ordered sequence of filter groups, and the owning client.
\<close>

record subscription =
  sub_id :: string
  sub_channel :: string
  sub_endpoint :: string
  sub_auth :: "string option"
  sub_filter_groups :: "filter_group list"
  sub_owner :: string

text \<open>
  Modelled from the spec: the Notification record (missing from the sources): channel
  reference, attribute mapping, opaque resource reference, creation timestamp.
\<close>

record notification =
  n_channel :: string
  n_attrs :: "(string \<times> string) list"
  n_resource :: string
  n_created :: nat

text \<open>
  Modelled from the spec: the stored state behind the data-access interface (the database
  and the broker are outside the sources): the channel and subscription tables, the
  append-only notification log (a notification's id is its position in the log), the
  broker's queue of dispatch jobs (a job is \<^verbatim>\<open>{notificationId}\<close>), and the clock that
  stamps new notifications.
\<close>

record system =
  channels :: "channel list"
  subscriptions :: "subscription list"
  notifications :: "notification list"
  queue :: "nat list"
  clock :: nat

definition init :: system where
  "init = \<lparr>channels = [], subscriptions = [], notifications = [], queue = [], clock = 0\<rparr>"

section \<open>Filter Matcher\<close>

text \<open>
  Modelled from the spec: the matcher (missing from the sources; the handlers only carry
  the comment \<^verbatim>\<open># send to abonnement\<close>), section 4.1. A group matches iff, for every
  (key, expected-value) pair in the group, the notification's attribute mapping contains
  that key with an equal value. The pairs are visited in order; a key the notification
  does not carry makes the group fail, it raises nothing.
\<close>

fun group_matches :: "filter_group \<Rightarrow> (string \<times> string) list \<Rightarrow> bool" where
  "group_matches [] attributes = True"
| "group_matches ((key, expected) # rest) attributes =
     (case map_of attributes key of
        None \<Rightarrow> False
      | Some v \<Rightarrow> if v = expected then group_matches rest attributes else False)"

text \<open>
  Modelled from the spec: iterate the filter groups; the subscription matches iff at least
  one group matches.
\<close>

fun any_group_matches :: "filter_group list \<Rightarrow> (string \<times> string) list \<Rightarrow> bool" where
  "any_group_matches [] attributes = False"
| "any_group_matches (g # gs) attributes =
     (if group_matches g attributes then True else any_group_matches gs attributes)"

text \<open>
  Modelled from the spec: \<^verbatim>\<open>matches(subscription, notification) -> bool\<close>. If the
  subscription has zero filter groups it matches everything on its channel; otherwise the
  groups decide. The algorithm of section 4.1 looks at the filter groups only; that the
  notification is on the subscription's channel is the caller's business (the candidates
  come from the Subscription Index of that channel).
\<close>

definition matches :: "subscription \<Rightarrow> notification \<Rightarrow> bool" where
  "matches S N =
     (if sub_filter_groups S = [] then True
      else any_group_matches (sub_filter_groups S) (n_attrs N))"

section \<open>Publish Pipeline\<close>

text \<open>
  The notification document accepted by the HTTP publish endpoint:
  \<^verbatim>\<open>{channel, attrs: {...}, resourceUrl}\<close>.
\<close>

record message =
  msg_channel :: string
  msg_attrs :: "(string \<times> string) list"
  msg_resourceUrl :: string

text \<open>
  Modelled from the spec: the failures of the publish pipeline (section 4.3).
  \<open>UndeclaredAttribute\<close> lists the offending keys.
\<close>

datatype error = UnknownChannel string | UndeclaredAttribute "string list"

text \<open>
  Modelled from the spec: \<^verbatim>\<open>getChannel(id)\<close> of the data-access interface (the query
  on \<^verbatim>\<open>Kanaal.objects\<close> is in the missing serializer). A channel is identified by its
  name.
\<close>

definition getChannel :: "system \<Rightarrow> string \<Rightarrow> channel option" where
  "getChannel st name = find (\<lambda>c. ch_name c = name) (channels st)"

text \<open>
  Modelled from the spec: the keys of \<^verbatim>\<open>attributes\<close> that are not declared on the
  channel's schema, in the order the notification carries them.
\<close>

definition undeclared_keys :: "channel \<Rightarrow> (string \<times> string) list \<Rightarrow> string list" where
  "undeclared_keys c attributes = filter (\<lambda>k. k \<notin> set (ch_filters c)) (map fst attributes)"

text \<open>
  Modelled from the spec: steps (1) and (2) of the publish pipeline, the validation the
  missing \<^verbatim>\<open>MessageSerializer\<close> performs in \<^verbatim>\<open>is_valid()\<close>. (1) resolve the channel,
  failing with \<open>UnknownChannel\<close> if absent; (2) every key of the attributes is declared on
  the channel's schema, failing with \<open>UndeclaredAttribute\<close> and the offending keys
  otherwise.
\<close>

definition validate_message :: "message \<Rightarrow> system \<Rightarrow> error + message" where
  "validate_message m st =
     (case getChannel st (msg_channel m) of
        None \<Rightarrow> Inl (UnknownChannel (msg_channel m))
      | Some c \<Rightarrow>
          (let offending = undeclared_keys c (msg_attrs m) in
           if offending = [] then Inr m else Inl (UndeclaredAttribute offending)))"

text \<open>
  Modelled from the spec: \<^verbatim>\<open>appendNotification(record)\<close>, step (3): the log is
  append-only and the new notification's id is its position.
\<close>

definition appendNotification :: "notification \<Rightarrow> system \<Rightarrow> nat \<times> system" where
  "appendNotification N st =
     (length (notifications st), st\<lparr>notifications := notifications st @ [N]\<rparr>)"

text \<open>
  Modelled from the spec: \<^verbatim>\<open>enqueue(job)\<close> of the Queue/Broker Adapter, step (4); the job
  payload is the notification id.
\<close>

definition enqueue :: "nat \<Rightarrow> system \<Rightarrow> system" where
  "enqueue job st = st\<lparr>queue := queue st @ [job]\<rparr>"

text \<open>
  Modelled from the spec: steps (3) and (4), what the missing \<^verbatim>\<open>MessageSerializer.save()\<close>
  does with the validated document: persist the Notification record, stamped with the
  current time, then enqueue a dispatch job referencing its id.
\<close>

definition persist_and_enqueue :: "message \<Rightarrow> system \<Rightarrow> system" where
  "persist_and_enqueue m st =
     (let N = \<lparr>n_channel = msg_channel m, n_attrs = msg_attrs m,
                n_resource = msg_resourceUrl m, n_created = clock st\<rparr>;
          (nid, st') = appendNotification N st
      in enqueue nid st')"

text \<open>
  Modelled from the spec: the \<^verbatim>\<open>MessageSerializer\<close> class (missing from the sources),
  assembled from the steps above. Its errors are the list of failures, empty for a valid
  document; the context it is constructed with plays no part in the pipeline.
\<close>

definition MessageSerializer :: "(message, 'm, system, message, error list) serializer_class" where
  "MessageSerializer d context =
     \<lparr>is_valid = (\<lambda>st. case validate_message d st of Inl e \<Rightarrow> False | Inr v \<Rightarrow> True),
      validated_data = (\<lambda>st. case validate_message d st of Inl e \<Rightarrow> d | Inr v \<Rightarrow> v),
      errors = (\<lambda>st. case validate_message d st of Inl e \<Rightarrow> [e] | Inr v \<Rightarrow> []),
      save = persist_and_enqueue d\<rparr>"

section \<open>The channel endpoints\<close>

text \<open>
  The actions a Django REST framework viewset can be routed to.
\<close>

datatype action =
  act_list | act_retrieve | act_create | act_update | act_partial_update | act_destroy

definition HTTP_200_OK :: nat where
  "HTTP_200_OK = 200"

definition HTTP_405_METHOD_NOT_ALLOWED :: nat where
  "HTTP_405_METHOD_NOT_ALLOWED = 405"

text \<open>
  \<^verbatim>\<open>
  class KanaalViewSet(
      CheckQueryParamsMixin,
      mixins.CreateModelMixin,
      mixins.ListModelMixin,
      mixins.RetrieveModelMixin,
      viewsets.GenericViewSet,
  ):
      queryset = Kanaal.objects.all()
      serializer_class = KanaalSerializer
      filterset_class = KanaalFilter
      lookup_field = "uuid"
  \<close>
  The class mixes in create, list and retrieve, and nothing else: it has no
  \<^verbatim>\<open>update\<close>, \<^verbatim>\<open>partial_update\<close> or \<^verbatim>\<open>destroy\<close> method.
\<close>

definition KanaalViewSet_actions :: "action list" where
  "KanaalViewSet_actions = [act_create, act_list, act_retrieve]"

text \<open>
  The three mixins, as the framework defines them, over the queryset
  \<^verbatim>\<open>Kanaal.objects.all()\<close>. The body of an error response is \<open>Errors (Some e)\<close> for the
  serializer's errors and \<open>Errors None\<close> for the framework's own \<^verbatim>\<open>detail\<close> message.

  \<^verbatim>\<open>CreateModelMixin.create\<close>: \<^verbatim>\<open>is_valid(raise_exception=True)\<close>, answered 400 by the
  framework when it raises, then \<^verbatim>\<open>perform_create\<close>, which is \<^verbatim>\<open>serializer.save()\<close>, and
  201 with the created record.
\<close>

definition CreateModelMixin_create ::
  "('d, 'm, system, channel, 'e) serializer_class \<Rightarrow> ('d, 'm) request \<Rightarrow> system
     \<Rightarrow> (channel list, 'e option) Response \<times> system" where
  "CreateModelMixin_create serializer_class request st =
     (let serializer = serializer_class (request_data request) (Some request) in
      if is_valid serializer st then
        (let st' = save serializer st
         in (\<lparr>data = Data [validated_data serializer st], status = HTTP_201_CREATED\<rparr>, st'))
      else (\<lparr>data = Errors (Some (errors serializer st)), status = HTTP_400_BAD_REQUEST\<rparr>,
            st))"

text \<open>
  \<^verbatim>\<open>ListModelMixin.list\<close>: the queryset, filtered by the filterset class, is serialized;
  nothing is written.
\<close>

definition ListModelMixin_list ::
  "(('d, 'm) request \<Rightarrow> channel \<Rightarrow> bool) \<Rightarrow> ('d, 'm) request \<Rightarrow> system
     \<Rightarrow> (channel list, 'e option) Response \<times> system" where
  "ListModelMixin_list filterset_class request st =
     (\<lparr>data = Data (filter (filterset_class request) (channels st)), status = HTTP_200_OK\<rparr>,
      st)"

text \<open>
  \<^verbatim>\<open>CheckQueryParamsMixin.list\<close> (of \<^verbatim>\<open>vng_api_common\<close>) comes first in the class's
  bases: it checks the query parameters of the request, raising a validation error
  (answered 400) for an unknown one, and then calls the next \<^verbatim>\<open>list\<close>. The check itself
  is a parameter.
\<close>

definition CheckQueryParamsMixin_list ::
  "(('d, 'm) request \<Rightarrow> bool) \<Rightarrow> (('d, 'm) request \<Rightarrow> channel \<Rightarrow> bool) \<Rightarrow> ('d, 'm) request
     \<Rightarrow> system \<Rightarrow> (channel list, 'e option) Response \<times> system" where
  "CheckQueryParamsMixin_list check_query_params filterset_class request st =
     (if check_query_params request then ListModelMixin_list filterset_class request st
      else (\<lparr>data = Errors None, status = HTTP_400_BAD_REQUEST\<rparr>, st))"

text \<open>
  \<^verbatim>\<open>RetrieveModelMixin.retrieve\<close>: \<^verbatim>\<open>get_object()\<close> looks the record up by the
  \<^verbatim>\<open>lookup_field\<close> and raises \<^verbatim>\<open>Http404\<close> when there is none; nothing is written.
\<close>

definition RetrieveModelMixin_retrieve ::
  "string \<Rightarrow> system \<Rightarrow> (channel list, 'e option) Response \<times> system" where
  "RetrieveModelMixin_retrieve uuid st =
     (case find (\<lambda>c. ch_uuid c = uuid) (channels st) of
        None \<Rightarrow> (\<lparr>data = Errors None, status = HTTP_404_NOT_FOUND\<rparr>, st)
      | Some c \<Rightarrow> (\<lparr>data = Data [c], status = HTTP_200_OK\<rparr>, st))"

text \<open>
  A request routed to \<^verbatim>\<open>KanaalViewSet\<close>: the action, the request and the \<^verbatim>\<open>uuid\<close> of the
  URL. An action the class has no method for is not bound by the router and is answered
  405 Method Not Allowed. \<^verbatim>\<open>KanaalSerializer\<close>, \<^verbatim>\<open>KanaalFilter\<close> and the query parameter
  check are not among the source files and are parameters. Authorisation
  (\<^verbatim>\<open>required_scopes\<close>) can only refuse a request before the action runs and is left out.
\<close>

definition KanaalViewSet ::
  "('d, 'm, system, channel, 'e) serializer_class \<Rightarrow> (('d, 'm) request \<Rightarrow> channel \<Rightarrow> bool)
     \<Rightarrow> (('d, 'm) request \<Rightarrow> bool) \<Rightarrow> action \<times> ('d, 'm) request \<times> string \<Rightarrow> system
     \<Rightarrow> (channel list, 'e option) Response \<times> system" where
  "KanaalViewSet KanaalSerializer KanaalFilter check_query_params call st =
     (case call of (action, request, uuid) \<Rightarrow>
        if action \<notin> set KanaalViewSet_actions
        then (\<lparr>data = Errors None, status = HTTP_405_METHOD_NOT_ALLOWED\<rparr>, st)
        else if action = act_create then CreateModelMixin_create KanaalSerializer request st
        else if action = act_list
          then CheckQueryParamsMixin_list check_query_params KanaalFilter request st
        else RetrieveModelMixin_retrieve uuid st)"

text \<open>
  A sequence of requests to the channel endpoints, served one after the other.
\<close>

fun serve_KanaalViewSet ::
  "('d, 'm, system, channel, 'e) serializer_class \<Rightarrow> (('d, 'm) request \<Rightarrow> channel \<Rightarrow> bool)
     \<Rightarrow> (('d, 'm) request \<Rightarrow> bool) \<Rightarrow> (action \<times> ('d, 'm) request \<times> string) list \<Rightarrow> system
     \<Rightarrow> system" where
  "serve_KanaalViewSet KanaalSerializer KanaalFilter check_query_params [] st = st"
| "serve_KanaalViewSet KanaalSerializer KanaalFilter check_query_params (call # calls) st =
     serve_KanaalViewSet KanaalSerializer KanaalFilter check_query_params calls
       (snd (KanaalViewSet KanaalSerializer KanaalFilter check_query_params call st))"

text \<open>
  Modelled from the spec: \<^verbatim>\<open>createChannel(spec)\<close> of the data-access interface, what the
  missing \<^verbatim>\<open>KanaalSerializer.save()\<close> does: the new record is added to the table.
\<close>

definition createChannel :: "channel \<Rightarrow> system \<Rightarrow> system" where
  "createChannel c st = st\<lparr>channels := channels st @ [c]\<rparr>"

text \<open>
  Modelled from the spec: the \<^verbatim>\<open>KanaalSerializer\<close> class (missing from the sources). A
  channel's name is unique: a document whose name is taken is rejected with an error on
  that field.
\<close>

definition KanaalSerializer :: "(channel, 'm, system, channel, string list) serializer_class" where
  "KanaalSerializer d context =
     \<lparr>is_valid = (\<lambda>st. getChannel st (ch_name d) = None),
      validated_data = (\<lambda>st. d),
      errors = (\<lambda>st. if getChannel st (ch_name d) = None then [] else [''naam'']),
      save = createChannel d\<rparr>"

text \<open>
  Whether a channel is referenced by at least one subscription.
\<close>

definition referenced :: "system \<Rightarrow> channel \<Rightarrow> bool" where
  "referenced st c = (ch_name c \<in> set (map sub_channel (subscriptions st)))"

section \<open>Example data\<close>

text \<open>
  A channel with two declared attributes, a subscription on it, and the state that holds
  both; the request below is published against it.
\<close>

definition kanaal_zaken :: channel where
  "kanaal_zaken = \<lparr>ch_uuid = ''k1'', ch_name = ''zaken'', ch_filters = [''bron'', ''zaaktype''],
                    ch_documentation = None, ch_owner = ''zrc''\<rparr>"

definition abonnement_zaken :: subscription where
  "abonnement_zaken = \<lparr>sub_id = ''a1'', sub_channel = ''zaken'',
       sub_endpoint = ''https://consumer.example/callback'', sub_auth = Some ''Bearer t'',
       sub_filter_groups = [[(''bron'', ''1''), (''zaaktype'', ''2'')], [(''zaaktype'', ''3'')]],
       sub_owner = ''consumer''\<rparr>"

definition st_zaken :: system where
  "st_zaken = init\<lparr>channels := [kanaal_zaken], subscriptions := [abonnement_zaken]\<rparr>"

definition req_declared :: "(message, unit) request" where
  "req_declared =
     \<lparr>request_data = \<lparr>msg_channel = ''zaken'', msg_attrs = [(''zaaktype'', ''3'')],
                       msg_resourceUrl = ''https://zrc.example/zaken/1''\<rparr>,
      request_meta = ()\<rparr>"

definition kanaal_documenten :: channel where
  "kanaal_documenten = \<lparr>ch_uuid = ''k2'', ch_name = ''documenten'', ch_filters = [''bron''],
                         ch_documentation = None, ch_owner = ''drc''\<rparr>"

definition req_kanaal :: "channel \<Rightarrow> (channel, unit) request" where
  "req_kanaal c = \<lparr>request_data = c, request_meta = ()\<rparr>"

text \<open>
  The subscriptions and notifications of the examples of section 8 of the specification.
\<close>

definition abonnement_a_and_b :: subscription where
  "abonnement_a_and_b = abonnement_zaken\<lparr>sub_filter_groups := [[(''a'', ''1''), (''b'', ''2'')]]\<rparr>"

definition abonnement_a_or_b :: subscription where
  "abonnement_a_or_b = abonnement_zaken\<lparr>sub_filter_groups := [[(''a'', ''1'')], [(''b'', ''2'')]]\<rparr>"

definition abonnement_alles :: subscription where
  "abonnement_alles = abonnement_zaken\<lparr>sub_filter_groups := []\<rparr>"

definition notificatie :: "(string \<times> string) list \<Rightarrow> notification" where
  "notificatie attributes = \<lparr>n_channel = ''zaken'', n_attrs = attributes,
       n_resource = ''https://zrc.example/zaken/1'', n_created = 0\<rparr>"

section \<open>Verified properties\<close>

subsection \<open>Auxiliary facts\<close>

lemma post_unfold:
  "NotificatieAPIView_post MS r st =
     (if is_valid (MS (request_data r) (Some r)) st
      then (\<lparr>data = Data (validated_data (MS (request_data r) (Some r)) st),
             status = HTTP_201_CREATED\<rparr>,
            save (MS (request_data r) (Some r)) st)
      else (\<lparr>data = Errors (errors (MS (request_data r) (Some r)) st),
             status = HTTP_400_BAD_REQUEST\<rparr>, st))"
  by (simp add: NotificatieAPIView_post_def Let_def)

lemma viewset_create_unfold:
  "NotificatieViewSet_create MS r st =
     (if is_valid (MS (request_data r) None) st
      then (\<lparr>data = Data (validated_data (MS (request_data r) None) st),
             status = HTTP_201_CREATED\<rparr>,
            save (MS (request_data r) None) st)
      else (\<lparr>data = Errors (errors (MS (request_data r) None) st),
             status = HTTP_400_BAD_REQUEST\<rparr>, st))"
  by (simp add: NotificatieViewSet_create_def Let_def)

lemma zaken_lookup: "getChannel st_zaken ''zaken'' = Some kanaal_zaken"
  by (simp add: getChannel_def st_zaken_def init_def kanaal_zaken_def)

lemma group_matches_iff:
  "group_matches G attributes \<longleftrightarrow>
     (\<forall>(key, expected) \<in> set G. map_of attributes key = Some expected)"
  by (induction G attributes rule: group_matches.induct) (auto split: option.splits)

lemma any_group_matches_iff:
  "any_group_matches Gs attributes \<longleftrightarrow> (\<exists>G \<in> set Gs. group_matches G attributes)"
  by (induction Gs) auto

subsection \<open>The two publish handlers\<close>

text \<open>
  Claim C10. The publish handlers of the \<^verbatim>\<open>nrc\<close> application
  (\<^verbatim>\<open>NotificatieAPIView.post\<close>, also reached through \<^verbatim>\<open>create\<close>) and of the
  \<^verbatim>\<open>notifications\<close> application (\<^verbatim>\<open>NotificatieViewSet.create\<close>) implement the same
  behaviour: each one is the function \<open>publish_handler_spec\<close> of the serializer it
  constructs from the request body, that is, 201 with the validated data after saving
  through the serializer when the body validates, 400 with the serializer's errors and
  an untouched state otherwise. When the two serializer classes construct the same
  instance, the handlers return the same response and leave the same state.
\<close>

theorem publish_handlers_equivalent:
  "NotificatieAPIView_post MS request st =
     publish_handler_spec (MS (request_data request) (Some request)) st
   \<and> NotificatieAPIView_create MS request st =
     publish_handler_spec (MS (request_data request) (Some request)) st
   \<and> NotificatieViewSet_create MS' request st =
     publish_handler_spec (MS' (request_data request) None) st
   \<and> (MS' (request_data request) None = MS (request_data request) (Some request) \<longrightarrow>
        NotificatieViewSet_create MS' request st = NotificatieAPIView_post MS request st
        \<and> NotificatieViewSet_create MS' request st = NotificatieAPIView_create MS request st)"
  by (simp add: post_unfold viewset_create_unfold NotificatieAPIView_create_def
      publish_handler_spec_def HTTP_201_CREATED_def HTTP_400_BAD_REQUEST_def)

lemma req_declared_valid:
  "validate_message (request_data req_declared) st_zaken = Inr (request_data req_declared)"
  by (simp add: validate_message_def zaken_lookup req_declared_def undeclared_keys_def
      kanaal_zaken_def)

theorem publish_handlers_equivalent_witness:
  "MessageSerializer (request_data req_declared) None
     = MessageSerializer (request_data req_declared) (Some req_declared)
   \<and> NotificatieViewSet_create MessageSerializer req_declared st_zaken
     = NotificatieAPIView_post MessageSerializer req_declared st_zaken
   \<and> status (fst (NotificatieAPIView_post MessageSerializer req_declared st_zaken)) = 201
   \<and> queue (snd (NotificatieViewSet_create MessageSerializer req_declared st_zaken)) = [0]"
proof -
  have same: "MessageSerializer (request_data req_declared) None
     = MessageSerializer (request_data req_declared) (Some req_declared)"
    by (simp add: MessageSerializer_def)
  have eq: "NotificatieViewSet_create MessageSerializer req_declared st_zaken
     = NotificatieAPIView_post MessageSerializer req_declared st_zaken"
    using publish_handlers_equivalent
      [where MS = MessageSerializer and MS' = MessageSerializer and request = req_declared
         and st = st_zaken] same
    by blast
  have post: "NotificatieAPIView_post MessageSerializer req_declared st_zaken =
      (\<lparr>data = Data (request_data req_declared), status = 201\<rparr>,
       persist_and_enqueue (request_data req_declared) st_zaken)"
    by (simp add: post_unfold MessageSerializer_def req_declared_valid HTTP_201_CREATED_def)
  have q: "queue (persist_and_enqueue (request_data req_declared) st_zaken) = [0]"
    by (simp add: persist_and_enqueue_def appendNotification_def enqueue_def st_zaken_def
        init_def)
  show ?thesis
    by (simp add: same eq post q)
qed

subsection \<open>Channels\<close>

lemma KanaalViewSet_keeps_channels:
  assumes "\<And>d ctx s. prefix (channels s) (channels (save (KS d ctx) s))"
  shows "prefix (channels st) (channels (snd (KanaalViewSet KS KF CQ call st)))"
  using assms
  by (cases call)
     (simp add: KanaalViewSet_def CreateModelMixin_create_def CheckQueryParamsMixin_list_def
        ListModelMixin_list_def RetrieveModelMixin_retrieve_def Let_def split: option.splits)

lemma KanaalViewSet_other_action:
  "action \<noteq> act_create \<Longrightarrow> snd (KanaalViewSet KS KF CQ (action, r, uuid) st) = st"
  by (simp add: KanaalViewSet_def CheckQueryParamsMixin_list_def ListModelMixin_list_def
        RetrieveModelMixin_retrieve_def split: option.splits)

lemma serve_KanaalViewSet_keeps_channels:
  assumes "\<And>d ctx s. prefix (channels s) (channels (save (KS d ctx) s))"
  shows "prefix (channels st) (channels (serve_KanaalViewSet KS KF CQ calls st))"
proof (induction calls arbitrary: st)
  case Nil
  show ?case by simp
next
  case (Cons call calls)
  have "prefix (channels st) (channels (snd (KanaalViewSet KS KF CQ call st)))"
    using assms by (rule KanaalViewSet_keeps_channels)
  also have "prefix \<dots> (channels (serve_KanaalViewSet KS KF CQ (call # calls) st))"
    using Cons.IH by simp
  finally show ?case .
qed

text \<open>
  Claim C9. Once created, a channel record is immutable and cannot be removed through the
  API: \<^verbatim>\<open>KanaalViewSet\<close> mixes in create, list and retrieve only, so after any sequence of
  requests to it the channel table still starts with the records it held before,
  unchanged and in order; in particular every channel referenced by a subscription is
  still there, and every action other than create (update, partial update and destroy
  are answered 405) leaves the whole state as it was. No API operation changes or removes
  a channel, whoever calls it. Of \<^verbatim>\<open>KanaalSerializer.save()\<close>, which is not among the
  sources, the theorem assumes that creating a channel only adds records (\<open>create_adds\<close>).
\<close>

theorem channel_records_immutable:
  assumes create_adds: "\<And>d ctx s. prefix (channels s) (channels (save (KS d ctx) s))"
  shows "prefix (channels st) (channels (serve_KanaalViewSet KS KF CQ calls st))
       \<and> (\<forall>c \<in> set (channels st). referenced st c \<longrightarrow>
             c \<in> set (channels (serve_KanaalViewSet KS KF CQ calls st)))
       \<and> (\<forall>action r uuid. action \<noteq> act_create \<longrightarrow>
             snd (KanaalViewSet KS KF CQ (action, r, uuid) st) = st)"
proof -
  have p: "prefix (channels st) (channels (serve_KanaalViewSet KS KF CQ calls st))"
    using create_adds by (rule serve_KanaalViewSet_keeps_channels)
  then have "set (channels st) \<subseteq> set (channels (serve_KanaalViewSet KS KF CQ calls st))"
    by (rule set_mono_prefix)
  then show ?thesis
    using p by (auto simp: KanaalViewSet_other_action)
qed

theorem channel_records_immutable_witness:
  "referenced st_zaken kanaal_zaken
   \<and> channels (serve_KanaalViewSet KanaalSerializer (\<lambda>r c. True) (\<lambda>r. True)
        [(act_destroy, req_kanaal kanaal_zaken, ''k1''),
         (act_update, req_kanaal (kanaal_zaken\<lparr>ch_filters := []\<rparr>), ''k1''),
         (act_create, req_kanaal (kanaal_zaken\<lparr>ch_filters := []\<rparr>), []),
         (act_create, req_kanaal kanaal_documenten, [])] st_zaken)
     = [kanaal_zaken, kanaal_documenten]
   \<and> prefix (channels st_zaken) [kanaal_zaken, kanaal_documenten]"
proof -
  let ?calls = "[(act_destroy, req_kanaal kanaal_zaken, ''k1''),
         (act_update, req_kanaal (kanaal_zaken\<lparr>ch_filters := []\<rparr>), ''k1''),
         (act_create, req_kanaal (kanaal_zaken\<lparr>ch_filters := []\<rparr>), []),
         (act_create, req_kanaal kanaal_documenten, [])]"
  have adds: "\<And>d ctx s. prefix (channels s)
      (channels (save ((KanaalSerializer :: (channel, unit, system, channel, string list) serializer_class) d ctx) s))"
    by (simp add: KanaalSerializer_def createChannel_def)
  have run: "channels (serve_KanaalViewSet KanaalSerializer (\<lambda>r c. True) (\<lambda>r. True) ?calls st_zaken)
     = [kanaal_zaken, kanaal_documenten]"
    by (simp add: KanaalViewSet_def KanaalViewSet_actions_def CreateModelMixin_create_def
        KanaalSerializer_def createChannel_def getChannel_def st_zaken_def init_def
        kanaal_zaken_def kanaal_documenten_def req_kanaal_def Let_def)
  have ref: "referenced st_zaken kanaal_zaken"
    by (simp add: referenced_def st_zaken_def init_def kanaal_zaken_def abonnement_zaken_def)
  have "prefix (channels st_zaken)
          (channels (serve_KanaalViewSet KanaalSerializer (\<lambda>r c. True) (\<lambda>r. True) ?calls st_zaken))"
    using channel_records_immutable
      [where KS = "KanaalSerializer :: (channel, unit, system, channel, string list) serializer_class"
         and KF = "\<lambda>r c. True" and CQ = "\<lambda>r. True" and st = st_zaken and calls = ?calls, OF adds]
    by (rule conjunct1)
  then have "prefix (channels st_zaken) [kanaal_zaken, kanaal_documenten]"
    by (simp only: run)
  then show ?thesis
    using run ref by simp
qed

subsection \<open>Filter Matcher\<close>

text \<open>
  Claim C1. For a subscription with at least one filter group and a notification on its
  channel, \<open>matches\<close> is true iff some filter group has every one of its
  (key, expected-value) pairs in the notification's attribute mapping, under equality of
  strings. A group with a key the notification lacks does not match (the result is the
  boolean False, not an error), and attributes the group does not mention are ignored:
  two attribute mappings that agree on the group's keys give the same answer.
\<close>

theorem matches_filter_groups:
  assumes "sub_filter_groups S \<noteq> []" and "n_channel N = sub_channel S"
  shows "(matches S N \<longleftrightarrow>
            (\<exists>G \<in> set (sub_filter_groups S).
               \<forall>(key, expected) \<in> set G. map_of (n_attrs N) key = Some expected))
       \<and> (\<forall>G key expected. (key, expected) \<in> set G \<and> map_of (n_attrs N) key = None
             \<longrightarrow> \<not> group_matches G (n_attrs N))
       \<and> (\<forall>G extra. (\<forall>key \<in> fst ` set G. map_of extra key = map_of (n_attrs N) key)
             \<longrightarrow> group_matches G extra = group_matches G (n_attrs N))"
proof -
  have a: "matches S N \<longleftrightarrow>
            (\<exists>G \<in> set (sub_filter_groups S).
               \<forall>(key, expected) \<in> set G. map_of (n_attrs N) key = Some expected)"
    using assms(1) by (simp add: matches_def any_group_matches_iff group_matches_iff)
  have b: "\<not> group_matches G (n_attrs N)"
    if "(key, expected) \<in> set G \<and> map_of (n_attrs N) key = None" for G key expected
    using that by (force simp: group_matches_iff)
  have c: "group_matches G extra = group_matches G (n_attrs N)"
    if "\<forall>key \<in> fst ` set G. map_of extra key = map_of (n_attrs N) key" for G extra
    using that by (force simp: group_matches_iff)
  show ?thesis using a b c by blast
qed

theorem matches_filter_groups_witness:
  "sub_filter_groups abonnement_a_and_b \<noteq> []
   \<and> n_channel (notificatie [(''a'', ''1''), (''b'', ''2''), (''c'', ''99'')])
       = sub_channel abonnement_a_and_b
   \<and> matches abonnement_a_and_b (notificatie [(''a'', ''1''), (''b'', ''2''), (''c'', ''99'')])
   \<and> \<not> matches abonnement_a_and_b (notificatie [(''a'', ''1'')])
   \<and> matches abonnement_a_or_b (notificatie [(''b'', ''2'')])"
proof -
  have g1: "sub_filter_groups abonnement_a_and_b \<noteq> []"
    by (simp add: abonnement_a_and_b_def)
  have g2: "sub_filter_groups abonnement_a_or_b \<noteq> []"
    by (simp add: abonnement_a_or_b_def)
  have c1: "n_channel (notificatie attributes) = sub_channel abonnement_a_and_b" for attributes
    by (simp add: notificatie_def abonnement_a_and_b_def abonnement_zaken_def)
  have c2: "n_channel (notificatie attributes) = sub_channel abonnement_a_or_b" for attributes
    by (simp add: notificatie_def abonnement_a_or_b_def abonnement_zaken_def)
  have "matches abonnement_a_and_b (notificatie [(''a'', ''1''), (''b'', ''2''), (''c'', ''99'')])"
    using matches_filter_groups [OF g1 c1, THEN conjunct1]
    by (simp add: abonnement_a_and_b_def notificatie_def)
  moreover have "\<not> matches abonnement_a_and_b (notificatie [(''a'', ''1'')])"
    using matches_filter_groups [OF g1 c1, THEN conjunct1]
    by (simp add: abonnement_a_and_b_def notificatie_def)
  moreover have "matches abonnement_a_or_b (notificatie [(''b'', ''2'')])"
    using matches_filter_groups [OF g2 c2, THEN conjunct1]
    by (simp add: abonnement_a_or_b_def notificatie_def)
  ultimately show ?thesis
    using g1 c1 by simp
qed

text \<open>
  Claim C5. A subscription whose filter-group list is empty matches every notification on
  its channel.
\<close>

theorem matches_empty_filter_groups:
  assumes "sub_filter_groups S = []" and "n_channel N = sub_channel S"
  shows "matches S N"
  using assms(1) by (simp add: matches_def)

theorem matches_empty_filter_groups_witness:
  "sub_filter_groups abonnement_alles = []
   \<and> n_channel (notificatie [(''a'', ''1'')]) = sub_channel abonnement_alles
   \<and> matches abonnement_alles (notificatie [(''a'', ''1'')])"
proof -
  have g: "sub_filter_groups abonnement_alles = []"
    by (simp add: abonnement_alles_def)
  have c: "n_channel (notificatie [(''a'', ''1'')]) = sub_channel abonnement_alles"
    by (simp add: notificatie_def abonnement_alles_def abonnement_zaken_def)
  show ?thesis
    using matches_empty_filter_groups [OF g c] g c by simp
qed

end
